theory Spec2Isabelle
  imports Main
begin

section \<open>Python text\<close>

text \<open>
  A Python \<^verbatim>\<open>str\<close> is a \<^typ>\<open>string\<close> with one \<^typ>\<open>char\<close> per
  code point; the embedding covers the code points below 256. A value that may be
  missing (a dictionary key that is absent, Python's \<^verbatim>\<open>None\<close>) is an
  \<^typ>\<open>'a option\<close>. An exception is a value of \<open>py_error\<close>, and a function that
  may raise returns \<open>py_error + 'a\<close>.
\<close>

datatype py_error =
    KeyError string
  | ValueError
  | OverflowError
  | HttpError string
  | LibraryError string

text \<open>
  \<^verbatim>\<open>str(e)\<close> of an exception. A \<^verbatim>\<open>KeyError\<close> prints the repr of its key, which
  for a key without quotes and escapes, such as the keys \<^verbatim>\<open>body\<close> and
  \<^verbatim>\<open>mimeType\<close> that the tools read, is the key between single quotes.
\<close>

fun str_error :: "py_error \<Rightarrow> string" where
  "str_error (KeyError k) = [CHR 0x27] @ k @ [CHR 0x27]"
| "str_error ValueError = ''invalid literal for int()''"
| "str_error OverflowError = ''int too large to convert to float''"
| "str_error (HttpError m) = m"
| "str_error (LibraryError m) = m"

text \<open>Truthiness of an optional string: \<^verbatim>\<open>None\<close> and \<^verbatim>\<open>""\<close> are false.\<close>

fun truthy :: "string option \<Rightarrow> bool" where
  "truthy None = False"
| "truthy (Some s) = (s \<noteq> [])"

text \<open>\<^verbatim>\<open>str.isspace\<close> and the class \<^verbatim>\<open>\s\<close> of \<^verbatim>\<open>re\<close> on code points below 256.\<close>

definition isspace :: "char \<Rightarrow> bool" where
  "isspace c = (let n = (of_char c :: nat)
                in (9 \<le> n \<and> n \<le> 13) \<or> (28 \<le> n \<and> n \<le> 32) \<or> n = 133 \<or> n = 160)"

text \<open>
  \<^verbatim>\<open>str.lower\<close>: the letters A to Z, and the capital letters of the Latin-1
  supplement (code points 192 to 222 without the multiplication sign 215), each mapped to
  the code point 32 above it.
\<close>

definition upper_letters :: "string" where
  "upper_letters = ''ABCDEFGHIJKLMNOPQRSTUVWXYZ'' @
     [CHR 0xC0, CHR 0xC1, CHR 0xC2, CHR 0xC3, CHR 0xC4, CHR 0xC5, CHR 0xC6, CHR 0xC7, CHR 0xC8, CHR 0xC9,
      CHR 0xCA, CHR 0xCB, CHR 0xCC, CHR 0xCD, CHR 0xCE, CHR 0xCF, CHR 0xD0, CHR 0xD1, CHR 0xD2, CHR 0xD3,
      CHR 0xD4, CHR 0xD5, CHR 0xD6, CHR 0xD8, CHR 0xD9, CHR 0xDA, CHR 0xDB, CHR 0xDC, CHR 0xDD, CHR 0xDE]"

definition lower_letters :: "string" where
  "lower_letters = ''abcdefghijklmnopqrstuvwxyz'' @
     [CHR 0xE0, CHR 0xE1, CHR 0xE2, CHR 0xE3, CHR 0xE4, CHR 0xE5, CHR 0xE6, CHR 0xE7, CHR 0xE8, CHR 0xE9,
      CHR 0xEA, CHR 0xEB, CHR 0xEC, CHR 0xED, CHR 0xEE, CHR 0xEF, CHR 0xF0, CHR 0xF1, CHR 0xF2, CHR 0xF3,
      CHR 0xF4, CHR 0xF5, CHR 0xF6, CHR 0xF8, CHR 0xF9, CHR 0xFA, CHR 0xFB, CHR 0xFC, CHR 0xFD, CHR 0xFE]"

definition lower_char :: "char \<Rightarrow> char" where
  "lower_char c = (case map_of (zip upper_letters lower_letters) c of None \<Rightarrow> c | Some l \<Rightarrow> l)"

definition lower :: "string \<Rightarrow> string" where
  "lower s = map lower_char s"

definition strip :: "string \<Rightarrow> string" where
  "strip s = rev (dropWhile isspace (rev (dropWhile isspace s)))"

definition endswith :: "string \<Rightarrow> string \<Rightarrow> bool" where
  "endswith s suf = (length suf \<le> length s \<and> drop (length s - length suf) s = suf)"

definition startswith :: "string \<Rightarrow> string \<Rightarrow> bool" where
  "startswith s pre = (take (length pre) s = pre)"

section \<open>Python numbers\<close>

definition digit_char :: "nat \<Rightarrow> char" where
  "digit_char d = ''0123456789'' ! d"

fun str_nat :: "nat \<Rightarrow> string" where
  "str_nat n = (if n < 10 then [digit_char n] else str_nat (n div 10) @ [digit_char (n mod 10)])"

declare str_nat.simps [simp del]

text \<open>\<^verbatim>\<open>str(n)\<close> of an int.\<close>

definition str_int :: "int \<Rightarrow> string" where
  "str_int i = (if i < 0 then CHR ''-'' # str_nat (nat (- i)) else str_nat (nat i))"

definition is_decimal :: "char \<Rightarrow> bool" where
  "is_decimal c = (let n = (of_char c :: nat) in 48 \<le> n \<and> n \<le> 57)"

text \<open>\<^verbatim>\<open>str.isdigit\<close> of one character: the decimal digits and the superscripts
  two, three and one.\<close>

definition isdigit_char :: "char \<Rightarrow> bool" where
  "isdigit_char c = (let n = (of_char c :: nat)
                     in (48 \<le> n \<and> n \<le> 57) \<or> n = 178 \<or> n = 179 \<or> n = 185)"

definition isdigit :: "string \<Rightarrow> bool" where
  "isdigit s = (s \<noteq> [] \<and> list_all isdigit_char s)"

text \<open>The white space that \<^verbatim>\<open>int(s)\<close> strips from both ends of a str.\<close>

definition int_space :: "char \<Rightarrow> bool" where
  "int_space c = (let n = (of_char c :: nat)
                  in (9 \<le> n \<and> n \<le> 13) \<or> n = 32 \<or> n = 133 \<or> n = 160)"

text \<open>
  The digits of an int literal, most significant first: digits with single underscores
  between them. The flag says whether the previous character was a digit.
\<close>

fun int_digits :: "bool \<Rightarrow> nat \<Rightarrow> string \<Rightarrow> nat option" where
  "int_digits after_digit acc [] = (if after_digit then Some acc else None)"
| "int_digits after_digit acc (c # cs) =
     (if is_decimal c then int_digits True (10 * acc + (of_char c - 48)) cs
      else if c = CHR ''_'' \<and> after_digit \<and> cs \<noteq> [] \<and> is_decimal (hd cs)
           then int_digits False acc cs
      else None)"

text \<open>\<^verbatim>\<open>int(s)\<close> of a str; \<open>None\<close> is \<^verbatim>\<open>ValueError\<close>. The interpreter's limit on the
  number of digits is not part of the embedding.\<close>

definition py_int :: "string \<Rightarrow> int option" where
  "py_int s =
     (let t = rev (dropWhile int_space (rev (dropWhile int_space s)))
      in case t of
           [] \<Rightarrow> None
         | c # cs \<Rightarrow>
             if c = CHR ''-'' then map_option (\<lambda>n. - int n) (int_digits False 0 cs)
             else if c = CHR ''+'' then map_option int (int_digits False 0 cs)
             else map_option int (int_digits False 0 t))"

subsection \<open>Floats that arise from sizes\<close>

text \<open>
  The size helpers divide an int by powers of 1024 and print the quotient with one
  decimal. A number is an int, or a float \<open>PyFloat m k\<close> of value \<open>m / 1024 ^ k\<close>:
  converting an int to a float rounds it to 53 significant bits (ties to even) and
  raises \<^verbatim>\<open>OverflowError\<close> beyond the range of a double; dividing a float by 1024
  is exact (the helpers divide only values of at least 1024); \<^verbatim>\<open>.1f\<close> prints the
  exact value rounded to one decimal, ties to even.
\<close>

datatype number = PyInt int | PyFloat int nat

definition round_half_even :: "nat \<Rightarrow> nat \<Rightarrow> nat" where
  "round_half_even a b =
     (let q = a div b; r = a mod b
      in if 2 * r < b then q else if b < 2 * r then q + 1 else if even q then q else q + 1)"

fun excess_bits :: "nat \<Rightarrow> nat" where
  "excess_bits n = (if n < 2 ^ 53 then 0 else Suc (excess_bits (n div 2)))"

declare excess_bits.simps [simp del]

definition nearest_double :: "nat \<Rightarrow> nat" where
  "nearest_double n = (let e = excess_bits n in round_half_even n (2 ^ e) * 2 ^ e)"

text \<open>\<^verbatim>\<open>i / 1024 ** j\<close> for an int \<open>i\<close>: true division, correctly rounded.\<close>

definition true_div_pow :: "int \<Rightarrow> nat \<Rightarrow> py_error + int \<times> nat" where
  "true_div_pow i j =
     (let m = nearest_double (nat \<bar>i\<bar>)
      in if 2 ^ (1024 + 10 * j) \<le> m then Inl OverflowError
         else Inr (if i < 0 then - int m else int m, j))"

definition div_1024 :: "number \<Rightarrow> py_error + number" where
  "div_1024 x =
     (case x of
        PyInt i \<Rightarrow> (case true_div_pow i 1 of
                     Inl e \<Rightarrow> Inl e
                   | Inr (m, k) \<Rightarrow> Inr (PyFloat m k))
      | PyFloat m k \<Rightarrow> Inr (PyFloat m (k + 1)))"

definition lt_1024 :: "number \<Rightarrow> bool" where
  "lt_1024 x = (case x of PyInt i \<Rightarrow> i < 1024 | PyFloat m k \<Rightarrow> m < 1024 * 1024 ^ k)"

text \<open>\<^verbatim>\<open>f"{x:.1f}"\<close>; an int is converted to a float first.\<close>

definition fmt_float_1f :: "int \<Rightarrow> nat \<Rightarrow> string" where
  "fmt_float_1f m k =
     (let t = round_half_even (10 * nat \<bar>m\<bar>) (1024 ^ k)
      in (if m < 0 then ''-'' else []) @ str_nat (t div 10) @ ''.'' @ str_nat (t mod 10))"

definition fmt_1f :: "number \<Rightarrow> py_error + string" where
  "fmt_1f x =
     (case x of
        PyInt i \<Rightarrow> (case true_div_pow i 0 of
                     Inl e \<Rightarrow> Inl e
                   | Inr (m, k) \<Rightarrow> Inr (fmt_float_1f m k))
      | PyFloat m k \<Rightarrow> Inr (fmt_float_1f m k))"

section \<open>The two definitions of \<^verbatim>\<open>format_file_size\<close>\<close>

text \<open>The definition at line 869 of \<^verbatim>\<open>mcp_toolkit.py\<close>.\<close>

definition format_file_size_first :: "string \<Rightarrow> string" where
  "format_file_size_first size_str =
     (if size_str = ''N/A'' \<or> size_str = [] \<or> \<not> isdigit size_str then ''Size unknown''
      else case py_int size_str of
             None \<Rightarrow> ''Size unknown''
           | Some size_bytes \<Rightarrow>
               if size_bytes < 1024 then str_int size_bytes @ '' B''
               else if size_bytes < 1024 * 1024 then
                 (case true_div_pow size_bytes 1 of Inl e \<Rightarrow> ''Size unknown''
                  | Inr (m, k) \<Rightarrow> fmt_float_1f m k @ '' KB'')
               else if size_bytes < 1024 * 1024 * 1024 then
                 (case true_div_pow size_bytes 2 of Inl e \<Rightarrow> ''Size unknown''
                  | Inr (m, k) \<Rightarrow> fmt_float_1f m k @ '' MB'')
               else
                 (case true_div_pow size_bytes 3 of Inl e \<Rightarrow> ''Size unknown''
                  | Inr (m, k) \<Rightarrow> fmt_float_1f m k @ '' GB''))"

text \<open>The definition at line 931: the loop over the units, then the result in TB.\<close>

fun size_loop :: "number \<Rightarrow> string list \<Rightarrow> py_error + string" where
  "size_loop sz [] = (case fmt_1f sz of Inl e \<Rightarrow> Inl e | Inr t \<Rightarrow> Inr (t @ '' TB''))"
| "size_loop sz (unit # units) =
     (if lt_1024 sz
      then (case fmt_1f sz of Inl e \<Rightarrow> Inl e | Inr t \<Rightarrow> Inr (t @ '' '' @ unit))
      else (case div_1024 sz of Inl e \<Rightarrow> Inl e | Inr sz' \<Rightarrow> size_loop sz' units))"

definition format_file_size :: "string \<Rightarrow> string" where
  "format_file_size size_str =
     (case py_int size_str of
        None \<Rightarrow> size_str
      | Some sz \<Rightarrow>
          (case size_loop (PyInt sz) [''B'', ''KB'', ''MB'', ''GB''] of
             Inl e \<Rightarrow> size_str
           | Inr r \<Rightarrow> r))"

text \<open>
  Both definitions bind the same module-level name. Executing the module's \<^verbatim>\<open>def\<close>
  statements in order rebinds the name; a call looks the name up when it runs, after the
  module has been loaded.
\<close>

definition exec_defs :: "(string \<times> 'f) list \<Rightarrow> (string \<rightharpoonup> 'f)" where
  "exec_defs defs = foldl (\<lambda>ns (name, f). ns(name \<mapsto> f)) Map.empty defs"

definition module_defs :: "(string \<times> (string \<Rightarrow> string)) list" where
  "module_defs = [(''format_file_size'', format_file_size_first),
                  (''format_file_size'', format_file_size)]"

section \<open>Tag stripping\<close>

text \<open>
  \<^verbatim>\<open>re.sub('<.*?>', '', s)\<close>. The pattern has no flags, so the dot matches every
  character but the line feed: after a \<^verbatim>\<open><\<close>, the match ends at the first
  \<^verbatim>\<open>>\<close> provided that no line feed comes before it. \<open>tag_end cs\<close> is the number of
  characters of \<open>cs\<close> that such a match takes.
\<close>

primrec tag_end :: "string \<Rightarrow> nat option" where
  "tag_end [] = None"
| "tag_end (c # cs) =
     (if c = CHR ''>'' then Some 1
      else if c = CHR 0x0A then None
      else map_option Suc (tag_end cs))"

text \<open>The first argument counts the characters of the current match still to drop.\<close>

fun sub_tags :: "nat \<Rightarrow> string \<Rightarrow> string" where
  "sub_tags n [] = []"
| "sub_tags (Suc n) (c # cs) = sub_tags n cs"
| "sub_tags 0 (c # cs) =
     (if c = CHR ''<''
      then (case tag_end cs of Some n \<Rightarrow> sub_tags n cs | None \<Rightarrow> c # sub_tags 0 cs)
      else c # sub_tags 0 cs)"

text \<open>
  \<^verbatim>\<open>html.unescape\<close> returns a string without an ampersand as it is; otherwise it
  substitutes the character references. The substitution belongs to the standard library
  and is a parameter, \<open>charref_sub\<close>.
\<close>

definition unescape :: "(string \<Rightarrow> string) \<Rightarrow> string \<Rightarrow> string" where
  "unescape charref_sub s = (if CHR ''&'' \<notin> set s then s else charref_sub s)"

text \<open>\<^verbatim>\<open>re.sub(r'\s+', ' ', s)\<close>; the flag says that the previous character was white
  space.\<close>

fun sub_spaces :: "bool \<Rightarrow> string \<Rightarrow> string" where
  "sub_spaces in_run [] = []"
| "sub_spaces in_run (c # cs) =
     (if isspace c then (if in_run then sub_spaces True cs else CHR '' '' # sub_spaces True cs)
      else c # sub_spaces False cs)"

definition strip_html_tags :: "(string \<Rightarrow> string) \<Rightarrow> string \<Rightarrow> string" where
  "strip_html_tags charref_sub html_content =
     (if html_content = [] then []
      else let clean = sub_tags 0 html_content;
               clean = unescape charref_sub clean;
               clean = strip (sub_spaces False clean)
           in clean)"

section \<open>The message payload\<close>

text \<open>
  The payload of a message is a tree of nested dictionaries. Each field is optional: the
  key may be absent. \<open>parts = Some []\<close> is a node whose \<^verbatim>\<open>parts\<close> key holds an empty
  list.
\<close>

record part_body =
  data :: "string option"
  attachmentId :: "string option"
  size_bytes :: "int option"

datatype payload =
  Payload (mimeType: "string option") (filename: "string option")
          (headers: "(string \<times> string) list option") (body: "part_body option")
          (parts: "payload list option")

text \<open>
  The call \<^verbatim>\<open>base64.urlsafe_b64decode(data).decode('utf-8', errors='ignore')\<close> belongs
  to the standard library. It is a parameter of the body extractor: \<open>Inl\<close> when it
  raises, \<open>Inr\<close> the decoded text.
\<close>

type_synonym decoder = "string \<Rightarrow> py_error + string"

subsection \<open>The body extractor\<close>

fun extract_text_from_payload :: "decoder \<Rightarrow> payload \<Rightarrow> string \<Rightarrow> string option"
  and extract_text_from_parts :: "decoder \<Rightarrow> payload list \<Rightarrow> string \<Rightarrow> string option"
where
  "extract_text_from_payload dec (Payload mt fn hs b ps) mime_type =
     (if mt = Some mime_type \<and> truthy (case b of None \<Rightarrow> None | Some bd \<Rightarrow> data bd)
      then (case b of
              None \<Rightarrow> None
            | Some bd \<Rightarrow>
                (case data bd of
                   None \<Rightarrow> None
                 | Some d \<Rightarrow> (case dec d of Inl e \<Rightarrow> None | Inr text \<Rightarrow> Some text)))
      else (case ps of
              None \<Rightarrow> None
            | Some qs \<Rightarrow> extract_text_from_parts dec qs mime_type))"
| "extract_text_from_parts dec [] mime_type = None"
| "extract_text_from_parts dec (part # rest) mime_type =
     (let result = extract_text_from_payload dec part mime_type
      in if truthy result then result else extract_text_from_parts dec rest mime_type)"

text \<open>The string held by an optional value that has been tested to be truthy.\<close>

fun str_of :: "string option \<Rightarrow> string" where
  "str_of None = []"
| "str_of (Some s) = s"

definition extract_email_body :: "decoder \<Rightarrow> (string \<Rightarrow> string) \<Rightarrow> payload \<Rightarrow> string" where
  "extract_email_body dec charref_sub payload =
     (let plain_text = extract_text_from_payload dec payload ''text/plain''
      in if truthy plain_text then str_of plain_text
         else (let html_text = extract_text_from_payload dec payload ''text/html''
               in if truthy html_text then strip_html_tags charref_sub (str_of html_text)
                  else ''No readable text content found.''))"

text \<open>
  The same walker with its exceptions explicit. The decoder raises at its call, which
  stands in a \<^verbatim>\<open>try\<close> block whose handler returns \<^verbatim>\<open>None\<close>; an exception of
  a recursive call would leave the loop and reach the caller.
\<close>

definition try_except :: "py_error + 'a \<Rightarrow> (py_error \<Rightarrow> py_error + 'a) \<Rightarrow> py_error + 'a" where
  "try_except block handler = (case block of Inl e \<Rightarrow> handler e | Inr v \<Rightarrow> Inr v)"

fun extract_text_exc :: "decoder \<Rightarrow> payload \<Rightarrow> string \<Rightarrow> py_error + string option"
  and extract_parts_exc :: "decoder \<Rightarrow> payload list \<Rightarrow> string \<Rightarrow> py_error + string option"
where
  "extract_text_exc dec (Payload mt fn hs b ps) mime_type =
     (if mt = Some mime_type \<and> truthy (case b of None \<Rightarrow> None | Some bd \<Rightarrow> data bd)
      then try_except
             (case dec (str_of (case b of None \<Rightarrow> None | Some bd \<Rightarrow> data bd)) of
                Inl e \<Rightarrow> Inl e
              | Inr text \<Rightarrow> Inr (Some text))
             (\<lambda>e. Inr None)
      else (case ps of
              None \<Rightarrow> Inr None
            | Some qs \<Rightarrow> extract_parts_exc dec qs mime_type))"
| "extract_parts_exc dec [] mime_type = Inr None"
| "extract_parts_exc dec (part # rest) mime_type =
     (case extract_text_exc dec part mime_type of
        Inl e \<Rightarrow> Inl e
      | Inr result \<Rightarrow>
          if truthy result then Inr result else extract_parts_exc dec rest mime_type)"

subsection \<open>The attachment collector\<close>

text \<open>One entry of the list that \<^verbatim>\<open>get_attachment_info\<close> returns.\<close>

record attachment =
  att_filename :: string
  att_mime_type :: string
  att_size :: string
  att_id :: string

text \<open>\<^verbatim>\<open>body.get('size', 0)\<close>.\<close>

definition body_size :: "part_body \<Rightarrow> int" where
  "body_size bd = (case size_bytes bd of None \<Rightarrow> 0 | Some n \<Rightarrow> n)"

text \<open>
  \<^verbatim>\<open>process_parts\<close> appends to the list \<^verbatim>\<open>attachments\<close> of the enclosing call;
  the list is passed in and returned. A subscript on a missing key raises
  \<^verbatim>\<open>KeyError\<close>, which nothing in \<^verbatim>\<open>get_attachment_info\<close> catches.
\<close>

fun process_parts :: "payload list \<Rightarrow> attachment list \<Rightarrow> py_error + attachment list"
  and process_part :: "payload \<Rightarrow> attachment list \<Rightarrow> py_error + attachment list"
where
  "process_parts [] attachments = Inr attachments"
| "process_parts (part # rest) attachments =
     (case process_part part attachments of
        Inl e \<Rightarrow> Inl e
      | Inr attachments' \<Rightarrow> process_parts rest attachments')"
| "process_part (Payload mt fn hs b (Some qs)) attachments = process_parts qs attachments"
| "process_part (Payload mt fn hs b None) attachments =
     (if \<not> truthy fn then Inr attachments
      else case b of
             None \<Rightarrow> Inl (KeyError ''body'')
           | Some bd \<Rightarrow>
               if \<not> truthy (attachmentId bd) then Inr attachments
               else (case mt of
                       None \<Rightarrow> Inl (KeyError ''mimeType'')
                     | Some m \<Rightarrow>
                         Inr (attachments @
                              [\<lparr>att_filename = str_of fn,
                                att_mime_type = m,
                                att_size = format_file_size (str_int (body_size bd)),
                                att_id = str_of (attachmentId bd)\<rparr>])))"

definition get_attachment_info :: "payload \<Rightarrow> py_error + attachment list" where
  "get_attachment_info payload =
     (case parts payload of
        None \<Rightarrow> Inr []
      | Some qs \<Rightarrow> process_parts qs [])"

subsection \<open>The nodes of a payload\<close>

text \<open>All nodes of a tree in depth-first pre-order, and the nodes below its root.\<close>

fun nodes :: "payload \<Rightarrow> payload list" where
  "nodes (Payload mt fn hs b None) = [Payload mt fn hs b None]"
| "nodes (Payload mt fn hs b (Some qs)) = Payload mt fn hs b (Some qs) # concat (map nodes qs)"

definition below :: "payload \<Rightarrow> payload list" where
  "below p = (case parts p of None \<Rightarrow> [] | Some qs \<Rightarrow> concat (map nodes qs))"

text \<open>The inline data and the attachment reference of a node, when its body has them.\<close>

definition body_data :: "payload \<Rightarrow> string option" where
  "body_data p = (case body p of None \<Rightarrow> None | Some bd \<Rightarrow> data bd)"

definition body_attachmentId :: "payload \<Rightarrow> string option" where
  "body_attachmentId p = (case body p of None \<Rightarrow> None | Some bd \<Rightarrow> attachmentId bd)"

definition children :: "payload \<Rightarrow> payload list" where
  "children p = (case parts p of None \<Rightarrow> [] | Some qs \<Rightarrow> qs)"

section \<open>Remote services and libraries\<close>

text \<open>
  The tools call the remote mail and file services and several libraries. What these
  return is a parameter of the embedding, collected in one record; a call that raises
  returns \<open>Inl\<close>.
  \<^item> \<open>messages_get id\<close>: \<^verbatim>\<open>users().messages().get(userId='me', id=id, format='full')\<close>;
  \<^item> \<open>messages_list n q\<close>: \<^verbatim>\<open>users().messages().list(userId='me', maxResults=n, q=q)\<close>,
    the value under the key \<^verbatim>\<open>messages\<close> (the ids of the messages) when present;
  \<^item> \<open>attachments_get mid aid\<close>: the value under \<^verbatim>\<open>data\<close> of
    \<^verbatim>\<open>users().messages().attachments().get(userId='me', messageId=mid, id=aid)\<close>;
  \<^item> \<open>files_list q n order\<close>: \<^verbatim>\<open>files().list(q=q, pageSize=n, fields=..., orderBy=order)\<close>,
    the value under \<^verbatim>\<open>files\<close> when present;
  \<^item> \<open>get_encoding\<close>: \<^verbatim>\<open>tiktoken.get_encoding("cl100k_base")\<close>, as the function that
    gives \<^verbatim>\<open>len(encoding.encode(text))\<close>;
  \<^item> \<open>urlsafe_b64decode\<close>: \<^verbatim>\<open>base64.urlsafe_b64decode\<close>, to bytes;
  \<^item> \<open>pdf_pages\<close>: for each page of \<^verbatim>\<open>PdfReader(stream).pages\<close> the result of
    \<^verbatim>\<open>extract_text()\<close>;
  \<^item> \<open>docx_paragraphs\<close>: the \<^verbatim>\<open>text\<close> of each paragraph of \<^verbatim>\<open>Document(stream)\<close>;
  \<^item> \<open>utf8_ignore\<close>: \<^verbatim>\<open>bytes.decode("utf-8", errors="ignore")\<close>.
\<close>

record message =
  msg_payload :: "payload option"
  snippet :: "string option"

record drive_file =
  file_id :: string
  file_name :: string
  file_mimeType :: string
  file_size :: "string option"

record services =
  messages_get :: "string \<Rightarrow> py_error + message"
  messages_list :: "int \<Rightarrow> string \<Rightarrow> py_error + string list option"
  attachments_get :: "string \<Rightarrow> string \<Rightarrow> py_error + string"
  files_list :: "string \<Rightarrow> int \<Rightarrow> string \<Rightarrow> py_error + drive_file list option"
  get_encoding :: "py_error + (string \<Rightarrow> nat)"
  urlsafe_b64decode :: "string \<Rightarrow> py_error + string"
  pdf_pages :: "string \<Rightarrow> py_error + string option list"
  docx_paragraphs :: "string \<Rightarrow> py_error + string list"
  utf8_ignore :: "string \<Rightarrow> string"

section \<open>Reading the content of an attachment\<close>

definition MAX_TOKENS :: nat where
  "MAX_TOKENS = 30000"

definition supported_name :: "string \<Rightarrow> bool" where
  "supported_name name = (endswith name ''.pdf'' \<or> endswith name ''.docx'' \<or> endswith name ''.txt'')"

text \<open>The loop that selects the first supported attachment among the given parts.\<close>

fun auto_select :: "payload list \<Rightarrow> payload option" where
  "auto_select [] = None"
| "auto_select (part # rest) =
     (let name = lower (case filename part of None \<Rightarrow> [] | Some f \<Rightarrow> f)
      in if supported_name name \<and> truthy (body_attachmentId part) then Some part
         else auto_select rest)"

text \<open>The loop that looks for the part with the given attachment id.\<close>

fun find_by_id :: "string \<Rightarrow> payload list \<Rightarrow> payload option" where
  "find_by_id aid [] = None"
| "find_by_id aid (part # rest) =
     (if body_attachmentId part = Some aid then Some part else find_by_id aid rest)"

text \<open>The text of the downloaded file; \<open>Inr None\<close> when no branch applies to the name.\<close>

definition extract_file_text :: "services \<Rightarrow> string \<Rightarrow> string \<Rightarrow> py_error + string option" where
  "extract_file_text sv name file_bytes =
     (if endswith name ''.pdf'' then
        (case pdf_pages sv file_bytes of
           Inl e \<Rightarrow> Inl e
         | Inr pages \<Rightarrow> Inr (Some (concat (map str_of pages))))
      else if endswith name ''.docx'' then
        (case docx_paragraphs sv file_bytes of
           Inl e \<Rightarrow> Inl e
         | Inr paras \<Rightarrow> Inr (Some (concat (map (\<lambda>t. t @ [CHR 0x0A]) paras))))
      else if endswith name ''.txt'' then Inr (Some (utf8_ignore sv file_bytes))
      else Inr None)"

definition too_large_message :: "string \<Rightarrow> nat \<Rightarrow> string" where
  "too_large_message name token_count =
     ''File '' @ [CHR 0x27] @ name @ [CHR 0x27] @ '' is too large ('' @ str_nat token_count
       @ '' tokens). Maximum allowed is '' @ str_nat MAX_TOKENS
       @ '' tokens. The file will not be loaded.''"

text \<open>\<^verbatim>\<open>matched_part.get("filename", "attachment").lower()\<close>.\<close>

definition part_name :: "payload \<Rightarrow> string" where
  "part_name matched_part =
     lower (case filename matched_part of None \<Rightarrow> ''attachment'' | Some f \<Rightarrow> f)"

text \<open>The steps after a part has been matched: download, extraction, the token limit.\<close>

definition read_matched_part ::
  "services \<Rightarrow> (string \<Rightarrow> nat) \<Rightarrow> string \<Rightarrow> payload \<Rightarrow> string \<Rightarrow> py_error + string" where
  "read_matched_part sv count_tokens message_id matched_part attachment_id =
     (let name = part_name matched_part
      in case attachments_get sv message_id attachment_id of
           Inl e \<Rightarrow> Inl e
         | Inr encoded \<Rightarrow>
             (case urlsafe_b64decode sv encoded of
                Inl e \<Rightarrow> Inl e
              | Inr file_bytes \<Rightarrow>
                  (case extract_file_text sv name file_bytes of
                     Inl e \<Rightarrow> Inl e
                   | Inr None \<Rightarrow> Inr (''Unsupported file type: '' @ name)
                   | Inr (Some extracted_text) \<Rightarrow>
                       if strip extracted_text = [] then
                         Inr ''Attachment was processed but no extractable text was found.''
                       else let token_count = count_tokens extracted_text
                            in if MAX_TOKENS < token_count
                               then Inr (too_large_message name token_count)
                               else Inr (strip extracted_text))))"

text \<open>
  The selection of the part to read among the top-level parts of the message: \<open>Inl\<close>
  the text returned when no part is matched, \<open>Inr\<close> the matched part with the
  attachment id to download.
\<close>

definition select_part :: "payload list \<Rightarrow> string \<Rightarrow> string option \<Rightarrow> string + payload \<times> string" where
  "select_part top_parts message_id attachment_id =
     (if \<not> truthy attachment_id then
        (case auto_select top_parts of
           None \<Rightarrow> Inl ''No supported attachment (.pdf, .docx, .txt) found in this message.''
         | Some matched_part \<Rightarrow> Inr (matched_part, str_of (body_attachmentId matched_part)))
      else
        (case find_by_id (str_of attachment_id) top_parts of
           None \<Rightarrow> Inl (''No attachment with ID '' @ str_of attachment_id
                         @ '' found in message '' @ message_id @ ''.'')
         | Some matched_part \<Rightarrow> Inr (matched_part, str_of attachment_id)))"

text \<open>\<^verbatim>\<open>message.get("payload", {}).get("parts", [])\<close>.\<close>

definition message_parts :: "message \<Rightarrow> payload list" where
  "message_parts msg = (case msg_payload msg of None \<Rightarrow> [] | Some p \<Rightarrow> children p)"

text \<open>The body of the \<^verbatim>\<open>try\<close> block of \<^verbatim>\<open>gmail_read_attchment_content\<close>.\<close>

definition read_attachment_try ::
  "services \<Rightarrow> string \<Rightarrow> string option \<Rightarrow> py_error + string" where
  "read_attachment_try sv message_id attachment_id =
     (case get_encoding sv of
        Inl e \<Rightarrow> Inl e
      | Inr count_tokens \<Rightarrow>
          (case messages_get sv message_id of
             Inl e \<Rightarrow> Inl e
           | Inr msg \<Rightarrow>
               (case select_part (message_parts msg) message_id attachment_id of
                  Inl not_found \<Rightarrow> Inr not_found
                | Inr (matched_part, aid) \<Rightarrow>
                    read_matched_part sv count_tokens message_id matched_part aid)))"

definition gmail_read_attchment_content :: "services \<Rightarrow> string \<Rightarrow> string option \<Rightarrow> string" where
  "gmail_read_attchment_content sv message_id attachment_id =
     (case read_attachment_try sv message_id attachment_id of
        Inl e \<Rightarrow> ''Error extracting attachment text: '' @ str_error e
      | Inr r \<Rightarrow> r)"

section \<open>Finding messages with attachments\<close>

definition ATTACHMENT_MIME_TYPES :: "(string \<times> string) list" where
  "ATTACHMENT_MIME_TYPES =
    [(''pdf'', ''application/pdf''),
     (''doc'', ''application/msword''),
     (''docx'', ''application/vnd.openxmlformats-officedocument.wordprocessingml.document''),
     (''rtf'', ''application/rtf''),
     (''odt'', ''application/vnd.oasis.opendocument.text''),
     (''xls'', ''application/vnd.ms-excel''),
     (''xlsx'', ''application/vnd.openxmlformats-officedocument.spreadsheetml.sheet''),
     (''ods'', ''application/vnd.oasis.opendocument.spreadsheet''),
     (''csv'', ''text/csv''),
     (''ppt'', ''application/vnd.ms-powerpoint''),
     (''pptx'', ''application/vnd.openxmlformats-officedocument.presentationml.presentation''),
     (''odp'', ''application/vnd.oasis.opendocument.presentation''),
     (''txt'', ''text/plain''),
     (''md'', ''text/markdown''),
     (''json'', ''application/json''),
     (''xml'', ''application/xml''),
     (''html'', ''text/html''),
     (''css'', ''text/css''),
     (''js'', ''text/javascript''),
     (''jpg'', ''image/jpeg''),
     (''jpeg'', ''image/jpeg''),
     (''png'', ''image/png''),
     (''gif'', ''image/gif''),
     (''bmp'', ''image/bmp''),
     (''tiff'', ''image/tiff''),
     (''tif'', ''image/tiff''),
     (''svg'', ''image/svg+xml''),
     (''webp'', ''image/webp''),
     (''zip'', ''application/zip''),
     (''rar'', ''application/x-rar-compressed''),
     (''7z'', ''application/x-7z-compressed''),
     (''tar'', ''application/x-tar''),
     (''gz'', ''application/gzip''),
     (''mp3'', ''audio/mpeg''),
     (''wav'', ''audio/wav''),
     (''flac'', ''audio/flac''),
     (''aac'', ''audio/aac''),
     (''ogg'', ''audio/ogg''),
     (''mp4'', ''video/mp4''),
     (''avi'', ''video/x-msvideo''),
     (''mov'', ''video/quicktime''),
     (''wmv'', ''video/x-ms-wmv''),
     (''flv'', ''video/x-flv''),
     (''mkv'', ''video/x-matroska''),
     (''gdoc'', ''application/vnd.google-apps.document''),
     (''gsheet'', ''application/vnd.google-apps.spreadsheet''),
     (''gslides'', ''application/vnd.google-apps.presentation''),
     (''gdraw'', ''application/vnd.google-apps.drawing''),
     (''gform'', ''application/vnd.google-apps.form''),
     (''gsite'', ''application/vnd.google-apps.site'')]"

definition get_export_mime_type :: "string \<Rightarrow> string" where
  "get_export_mime_type google_mime_type =
     (case map_of
        [(''application/vnd.google-apps.document'', ''text/markdown''),
         (''application/vnd.google-apps.spreadsheet'', ''text/csv''),
         (''application/vnd.google-apps.presentation'', ''text/plain''),
         (''application/vnd.google-apps.drawing'', ''image/png'')] google_mime_type of
        None \<Rightarrow> ''text/plain''
      | Some t \<Rightarrow> t)"

record found_attachment =
  fa_filename :: string
  fa_mime_type :: string
  fa_size_bytes :: int
  fa_attachment_id :: string
  is_google_workspace :: bool
  export_mime_type :: "string option"

record message_data =
  md_message_id :: string
  md_subject :: string
  md_from :: string
  md_from_full :: string
  md_to :: string
  md_date :: string
  md_snippet :: string
  md_attachments :: "found_attachment list"
  attachment_count :: nat
  total_size_bytes :: int

text \<open>The dictionary that the tool serialises with \<^verbatim>\<open>json.dumps\<close>.\<close>

datatype find_result =
    Find_success nat string "message_data list"
  | Find_unsupported string "string list"
  | Find_http_error string
  | Find_error string

text \<open>
  \<^verbatim>\<open>extract_attachments_recursive\<close> appends to the list \<^verbatim>\<open>found_attachments\<close> of the
  enclosing loop body; the list is passed in and returned.
\<close>

fun extract_attachments_recursive ::
    "string option \<Rightarrow> payload \<Rightarrow> found_attachment list \<Rightarrow> found_attachment list"
  and extract_attachments_parts ::
    "string option \<Rightarrow> payload list \<Rightarrow> found_attachment list \<Rightarrow> found_attachment list"
where
  "extract_attachments_recursive filter_mime_type (Payload mt fn hs b (Some qs)) found =
     extract_attachments_parts filter_mime_type qs found"
| "extract_attachments_recursive filter_mime_type (Payload mt fn hs b None) found =
     (let name = strip (str_of fn)
      in if name = [] then found
         else let actual_mime = str_of mt
              in if truthy filter_mime_type \<and> actual_mime \<noteq> str_of filter_mime_type then found
                 else let workspace = startswith actual_mime ''application/vnd.google-apps''
                      in found @
                         [\<lparr>fa_filename = name,
                           fa_mime_type = actual_mime,
                           fa_size_bytes = (case b of None \<Rightarrow> 0 | Some bd \<Rightarrow> body_size bd),
                           fa_attachment_id =
                             (case b of None \<Rightarrow> [] | Some bd \<Rightarrow> str_of (attachmentId bd)),
                           is_google_workspace = workspace,
                           export_mime_type =
                             (if workspace then Some (get_export_mime_type actual_mime)
                              else None)\<rparr>])"
| "extract_attachments_parts filter_mime_type [] found = found"
| "extract_attachments_parts filter_mime_type (part # rest) found =
     extract_attachments_parts filter_mime_type rest
       (extract_attachments_recursive filter_mime_type part found)"

text \<open>\<^verbatim>\<open>s.strip('"')\<close>.\<close>

definition strip_quotes :: "string \<Rightarrow> string" where
  "strip_quotes s =
     rev (dropWhile (\<lambda>c. c = CHR 0x22) (rev (dropWhile (\<lambda>c. c = CHR 0x22) s)))"

definition parse_sender :: "string \<Rightarrow> string" where
  "parse_sender from_field =
     (if CHR ''<'' \<in> set from_field \<and> CHR ''>'' \<in> set from_field then
        (let name_part = strip_quotes (strip (takeWhile (\<lambda>c. c \<noteq> CHR ''<'') from_field));
             after = takeWhile (\<lambda>c. c \<noteq> CHR ''<'')
                       (tl (dropWhile (\<lambda>c. c \<noteq> CHR ''<'') from_field));
             email_part = takeWhile (\<lambda>c. c \<noteq> CHR ''>'') after
         in if name_part \<noteq> [] then name_part else email_part)
      else from_field)"

text \<open>
  \<^verbatim>\<open>headers_dict\<close>: a later header of the same name replaces an earlier one, so a
  lookup finds the last one.
\<close>

definition header_get :: "(string \<times> string) list \<Rightarrow> string \<Rightarrow> string \<Rightarrow> string" where
  "header_get hs name dflt = (case map_of (rev hs) name of None \<Rightarrow> dflt | Some v \<Rightarrow> v)"

text \<open>
  The body of the loop over the message references, for one reference: \<open>Inl\<close> when it
  raises, \<open>Inr None\<close> when the message has no matching attachment.
\<close>

definition process_message ::
  "services \<Rightarrow> string option \<Rightarrow> string \<Rightarrow> py_error + message_data option" where
  "process_message sv filter_mime_type ref_id =
     (case messages_get sv ref_id of
        Inl e \<Rightarrow> Inl e
      | Inr full_message \<Rightarrow>
          (let pl = (case msg_payload full_message of
                       None \<Rightarrow> Payload None None None None None
                     | Some p \<Rightarrow> p);
               hs = (case headers pl of None \<Rightarrow> [] | Some h \<Rightarrow> h);
               from_field = header_get hs ''From'' ''Unknown Sender'';
               sender_name = parse_sender from_field;
               found_attachments = extract_attachments_recursive filter_mime_type pl []
           in if found_attachments = [] then Inr None
              else Inr (Some
                \<lparr>md_message_id = ref_id,
                  md_subject = header_get hs ''Subject'' ''No Subject'',
                  md_from = sender_name,
                  md_from_full = from_field,
                  md_to = header_get hs ''To'' [],
                  md_date = header_get hs ''Date'' [],
                  md_snippet = str_of (snippet full_message),
                  md_attachments = found_attachments,
                  attachment_count = length found_attachments,
                  total_size_bytes = sum_list (map fa_size_bytes found_attachments)\<rparr>)))"

text \<open>
  The loop over \<^verbatim>\<open>message_list\<close>: it stops as soon as \<^verbatim>\<open>valid_messages\<close> has
  \<^verbatim>\<open>max_results\<close> entries, and skips a message whose processing raises.
\<close>

fun collect_messages ::
  "services \<Rightarrow> string option \<Rightarrow> int \<Rightarrow> string list \<Rightarrow> message_data list \<Rightarrow> message_data list" where
  "collect_messages sv filter_mime_type max_results [] valid_messages = valid_messages"
| "collect_messages sv filter_mime_type max_results (ref_id # rest) valid_messages =
     (if max_results \<le> int (length valid_messages) then valid_messages
      else case process_message sv filter_mime_type ref_id of
             Inl e \<Rightarrow> collect_messages sv filter_mime_type max_results rest valid_messages
           | Inr None \<Rightarrow> collect_messages sv filter_mime_type max_results rest valid_messages
           | Inr (Some message_data) \<Rightarrow>
               collect_messages sv filter_mime_type max_results rest
                 (valid_messages @ [message_data]))"

text \<open>\<^verbatim>\<open>' '.join(search_parts)\<close>.\<close>

fun join_spaces :: "string list \<Rightarrow> string" where
  "join_spaces [] = []"
| "join_spaces [s] = s"
| "join_spaces (s # t # ts) = s @ '' '' @ join_spaces (t # ts)"

text \<open>An optional search term: present when the argument is given and not blank.\<close>

definition search_term :: "string \<Rightarrow> string \<Rightarrow> string option \<Rightarrow> string list" where
  "search_term before after arg =
     (if truthy arg \<and> strip (str_of arg) \<noteq> [] then [before @ strip (str_of arg) @ after]
      else [])"

definition build_search_query ::
  "string option \<Rightarrow> string option \<Rightarrow> string option \<Rightarrow> string option \<Rightarrow> string option \<Rightarrow> string" where
  "build_search_query query sender subject_contains date_after date_before =
     join_spaces ([''has:attachment'']
       @ search_term [] [] query
       @ search_term ''from:('' '')'' sender
       @ search_term ''subject:('' '')'' subject_contains
       @ search_term ''after:'' [] date_after
       @ search_term ''before:'' [] date_before)"

text \<open>The MIME type to filter by: \<open>Inl\<close> the unsupported extension.\<close>

definition choose_filter :: "string option \<Rightarrow> string option \<Rightarrow> string + string option" where
  "choose_filter attachment_type mime_type =
     (if truthy mime_type \<and> strip (str_of mime_type) \<noteq> [] then Inr (Some (strip (str_of mime_type)))
      else if truthy attachment_type \<and> strip (str_of attachment_type) \<noteq> [] then
        (let ext = lower (strip (str_of attachment_type))
         in case map_of ATTACHMENT_MIME_TYPES ext of
              None \<Rightarrow> Inl (str_of attachment_type)
            | Some t \<Rightarrow> Inr (Some t))
      else Inr None)"

definition gmail_find_messages_with_attachments ::
  "services \<Rightarrow> int \<Rightarrow> string option \<Rightarrow> string option \<Rightarrow> string option \<Rightarrow> string option
     \<Rightarrow> string option \<Rightarrow> string option \<Rightarrow> string option \<Rightarrow> find_result" where
  "gmail_find_messages_with_attachments sv max_results query sender subject_contains
       date_after date_before attachment_type mime_type =
     (case choose_filter attachment_type mime_type of
        Inl unsupported \<Rightarrow> Find_unsupported unsupported (map fst ATTACHMENT_MIME_TYPES)
      | Inr filter_mime_type \<Rightarrow>
          (let search_query =
                 build_search_query query sender subject_contains date_after date_before
           in case messages_list sv (max_results * 5) search_query of
                Inl (HttpError m) \<Rightarrow> Find_http_error m
              | Inl e \<Rightarrow> Find_error (str_error e)
              | Inr listed \<Rightarrow>
                  (let message_list = (case listed of None \<Rightarrow> [] | Some l \<Rightarrow> l)
                   in if message_list = [] then Find_success 0 search_query []
                      else let valid_messages =
                                 collect_messages sv filter_mime_type max_results message_list []
                           in Find_success (length valid_messages) search_query valid_messages)))"

text \<open>The messages that a result holds under the key \<^verbatim>\<open>messages\<close>.\<close>

fun result_messages :: "find_result \<Rightarrow> message_data list" where
  "result_messages (Find_success n q ms) = ms"
| "result_messages (Find_unsupported t ts) = []"
| "result_messages (Find_http_error m) = []"
| "result_messages (Find_error m) = []"

section \<open>Listing all files\<close>

definition file_type_queries :: "(string \<times> string) list" where
  "file_type_queries =
    [(''folder'', ''mimeType='' @ [CHR 0x27] @ ''application/vnd.google-apps.folder'' @ [CHR 0x27]),
     (''document'', ''mimeType='' @ [CHR 0x27] @ ''application/vnd.google-apps.document'' @ [CHR 0x27]),
     (''spreadsheet'', ''mimeType='' @ [CHR 0x27] @ ''application/vnd.google-apps.spreadsheet'' @ [CHR 0x27]),
     (''presentation'', ''mimeType='' @ [CHR 0x27] @ ''application/vnd.google-apps.presentation'' @ [CHR 0x27]),
     (''pdf'', ''mimeType='' @ [CHR 0x27] @ ''application/pdf'' @ [CHR 0x27]),
     (''image'', ''mimeType contains '' @ [CHR 0x27] @ ''image/'' @ [CHR 0x27]),
     (''video'', ''mimeType contains '' @ [CHR 0x27] @ ''video/'' @ [CHR 0x27]),
     (''audio'', ''mimeType contains '' @ [CHR 0x27] @ ''audio/'' @ [CHR 0x27]),
     (''text'', ''mimeType contains '' @ [CHR 0x27] @ ''text/'' @ [CHR 0x27])]"

text \<open>
  The tool returns a text. The embedding keeps what the text is built from: the filter
  that was refused, the notice that nothing was found, the error message, or the items
  that the text enumerates, as the list \<^verbatim>\<open>items\<close>, its folders and its other files.
\<close>

datatype drive_listing =
    Unsupported_filter string
  | No_files_found
  | Listing "drive_file list" "drive_file list" "drive_file list"
  | Listing_error string

definition drive_list_all_files ::
  "services \<Rightarrow> int \<Rightarrow> string option \<Rightarrow> string \<Rightarrow> drive_listing" where
  "drive_list_all_files sv max_results file_type order_by =
     (let base = ''trashed=false'';
          filtered =
            (if truthy file_type then
               (case map_of file_type_queries (lower (str_of file_type)) of
                  None \<Rightarrow> Inl (str_of file_type)
                | Some q \<Rightarrow> Inr (base @ '' and '' @ q))
             else Inr base)
      in case filtered of
           Inl unsupported \<Rightarrow> Unsupported_filter unsupported
         | Inr query \<Rightarrow>
             (let max_results = min max_results 1000
              in case files_list sv query max_results order_by of
                   Inl e \<Rightarrow> Listing_error (str_error e)
                 | Inr listed \<Rightarrow>
                     (let items = (case listed of None \<Rightarrow> [] | Some l \<Rightarrow> l)
                      in if items = [] then No_files_found
                         else Listing items
                                (filter (\<lambda>item. file_mimeType item
                                           = ''application/vnd.google-apps.folder'') items)
                                (filter (\<lambda>item. file_mimeType item
                                           \<noteq> ''application/vnd.google-apps.folder'') items))))"

text \<open>The items that a listing enumerates.\<close>

fun listed_items :: "drive_listing \<Rightarrow> drive_file list" where
  "listed_items (Listing items folders files) = items"
| "listed_items (Unsupported_filter t) = []"
| "listed_items No_files_found = []"
| "listed_items (Listing_error m) = []"

section \<open>Notions used in the statements\<close>

subsection \<open>Attachments\<close>







subsection \<open>Body text\<close>

text \<open>A node yields content for a type: it has that type and data that decode to a
  non-empty text.\<close>

definition decoded :: "decoder \<Rightarrow> payload \<Rightarrow> string option" where
  "decoded dec n =
     (case body_data n of
        None \<Rightarrow> None
      | Some d \<Rightarrow> (case dec d of Inl e \<Rightarrow> None | Inr t \<Rightarrow> Some t))"

definition yields :: "decoder \<Rightarrow> string \<Rightarrow> payload \<Rightarrow> bool" where
  "yields dec mime n =
     (mimeType n = Some mime \<and> truthy (body_data n) \<and> truthy (decoded dec n))"

text \<open>The content of the first node of a list that yields content for a type.\<close>

fun first_content :: "decoder \<Rightarrow> string \<Rightarrow> payload list \<Rightarrow> string option" where
  "first_content dec mime [] = None"
| "first_content dec mime (n # ns) =
     (if yields dec mime n then decoded dec n else first_content dec mime ns)"

text \<open>The invariant of the data model: only leaves carry inline body data.\<close>

definition leaf_data :: "payload \<Rightarrow> bool" where
  "leaf_data p = list_all (\<lambda>n. truthy (body_data n) \<longrightarrow> children n = []) (nodes p)"

text \<open>A body whose inline data do not decode.\<close>

definition malformed :: "decoder \<Rightarrow> part_body option \<Rightarrow> bool" where
  "malformed dec b =
     (case b of
        None \<Rightarrow> False
      | Some bd \<Rightarrow>
          (case data bd of
             None \<Rightarrow> False
           | Some d \<Rightarrow> d \<noteq> [] \<and> (case dec d of Inl e \<Rightarrow> True | Inr t \<Rightarrow> False)))"

definition without_data :: "part_body option \<Rightarrow> part_body option" where
  "without_data b = map_option (\<lambda>bd. bd\<lparr>data := None\<rparr>) b"

text \<open>
  The tree in which the content of every node of the given type with malformed data is
  absent: \<open>erase_bad\<close> removes the data of such a node, \<open>prune_bad\<close> removes its data
  and its child parts.
\<close>

fun erase_bad :: "decoder \<Rightarrow> string \<Rightarrow> payload \<Rightarrow> payload" where
  "erase_bad dec mime (Payload mt fn hs b None) =
     Payload mt fn hs (if mt = Some mime \<and> malformed dec b then without_data b else b) None"
| "erase_bad dec mime (Payload mt fn hs b (Some qs)) =
     Payload mt fn hs (if mt = Some mime \<and> malformed dec b then without_data b else b)
       (Some (map (erase_bad dec mime) qs))"

fun prune_bad :: "decoder \<Rightarrow> string \<Rightarrow> payload \<Rightarrow> payload" where
  "prune_bad dec mime (Payload mt fn hs b None) =
     Payload mt fn hs (if mt = Some mime \<and> malformed dec b then without_data b else b) None"
| "prune_bad dec mime (Payload mt fn hs b (Some qs)) =
     (if mt = Some mime \<and> malformed dec b then Payload mt fn hs (without_data b) None
      else Payload mt fn hs b (Some (map (prune_bad dec mime) qs)))"

subsection \<open>Enumerations\<close>

text \<open>
  The candidates of a search that are kept: the messages, in the order of the listing,
  whose processing does not raise and finds a matching attachment.
\<close>

definition kept_message :: "services \<Rightarrow> string option \<Rightarrow> string \<Rightarrow> message_data option" where
  "kept_message sv filter_mime_type ref_id =
     (case process_message sv filter_mime_type ref_id of Inl e \<Rightarrow> None | Inr kept \<Rightarrow> kept)"

definition kept_messages :: "services \<Rightarrow> string option \<Rightarrow> string list \<Rightarrow> message_data list" where
  "kept_messages sv filter_mime_type refs = List.map_filter (kept_message sv filter_mime_type) refs"

text \<open>The query that the listing of files sends; \<open>Inl\<close> the filter that it refuses.\<close>

definition files_query :: "string option \<Rightarrow> string + string" where
  "files_query file_type =
     (if truthy file_type then
        (case map_of file_type_queries (lower (str_of file_type)) of
           None \<Rightarrow> Inl (str_of file_type)
         | Some q \<Rightarrow> Inr (''trashed=false'' @ '' and '' @ q))
      else Inr ''trashed=false'')"

subsection \<open>Values of the libraries and test doubles\<close>

text \<open>
  The values of \<^verbatim>\<open>base64.urlsafe_b64decode(d).decode('utf-8', errors='ignore')\<close> at
  the four data strings of the examples: \<^verbatim>\<open>SGVsbG8=\<close> is the text Hello,
  \<^verbatim>\<open>PGI-SGk8L2I-\<close> is a bold Hi in markup, \<^verbatim>\<open>_w==\<close> is the byte 255, which is
  not UTF-8 and is ignored, and \<^verbatim>\<open>A\<close> is not base64, so that the library raises.
  No other data string occurs in the examples.
\<close>

definition sample_decode :: decoder where
  "sample_decode d =
     (if d = ''SGVsbG8='' then Inr ''Hello''
      else if d = ''PGI-SGk8L2I-'' then Inr ''<b>Hi</b>''
      else if d = ''_w=='' then Inr []
      else Inl (LibraryError ''Invalid base64-encoded string''))"

text \<open>
  The value of the substitution of character references at the string of the example,
  where the no-break space (code point 160) replaces its named reference.
\<close>

definition sample_charref_sub :: "string \<Rightarrow> string" where
  "sample_charref_sub s = (if s = ''Hi&nbsp;there'' then ''Hi'' @ [CHR 0xA0] @ ''there'' else s)"

text \<open>
  Services for the examples: every message has the given payload, the listing of
  messages returns the given ids, every file holds the given text, the tokenizer is the
  given function, and the listing of files returns the first files up to the page size,
  which must be positive.
\<close>

definition stub_services ::
  "payload \<Rightarrow> string list \<Rightarrow> string \<Rightarrow> (string \<Rightarrow> nat) \<Rightarrow> drive_file list \<Rightarrow> services" where
  "stub_services p ids file_text count_tokens files =
     \<lparr>messages_get = (\<lambda>mid. Inr \<lparr>msg_payload = Some p, snippet = Some []\<rparr>),
      messages_list = (\<lambda>n q. Inr (Some ids)),
      attachments_get = (\<lambda>mid aid. Inr []),
      files_list = (\<lambda>q n order.
        if n \<le> 0 then Inl (HttpError ''Invalid value for pageSize'')
        else Inr (Some (take (nat n) files))),
      get_encoding = Inr count_tokens,
      urlsafe_b64decode = (\<lambda>encoded. Inr []),
      pdf_pages = (\<lambda>file_bytes. Inr [Some file_text]),
      docx_paragraphs = (\<lambda>file_bytes. Inr [file_text]),
      utf8_ignore = (\<lambda>file_bytes. file_text)\<rparr>"

text \<open>
  The message of the scenario: a root with a plain-text part, whose inline data are the
  text Hello, and a PDF part named r.pdf of 2048 bytes with the reference id att1.
\<close>

definition scenario :: payload where
  "scenario =
     Payload (Some ''multipart/mixed'') None None None
       (Some [Payload (Some ''text/plain'') None None
                (Some \<lparr>data = Some ''SGVsbG8='', attachmentId = None, size_bytes = Some 5\<rparr>)
                None,
              Payload (Some ''application/pdf'') (Some ''r.pdf'') None
                (Some \<lparr>data = None, attachmentId = Some ''att1'', size_bytes = Some 2048\<rparr>)
                None])"

text \<open>A result of the body extractor that is truthy, or nothing.\<close>

definition found :: "string option \<Rightarrow> string option" where
  "found r = (if truthy r then r else None)"

text \<open>Parts for the examples: a leaf of the given content type with the given inline
  data, and a container of the given parts.\<close>

definition text_part :: "string \<Rightarrow> string \<Rightarrow> payload" where
  "text_part mime d =
     Payload (Some mime) None None
       (Some \<lparr>data = Some d, attachmentId = None, size_bytes = Some (int (length d))\<rparr>) None"

definition container :: "string \<Rightarrow> payload list \<Rightarrow> payload" where
  "container mime qs =
     Payload (Some mime) None None
       (Some \<lparr>data = None, attachmentId = None, size_bytes = Some 0\<rparr>) (Some qs)"

text \<open>
  A plain-text node that has both inline data that do not decode and a child part, the
  text Hello; the data model has no such node.
\<close>

definition bad_parent :: payload where
  "bad_parent =
     Payload (Some ''text/plain'') None None
       (Some \<lparr>data = Some ''A'', attachmentId = None, size_bytes = Some 1\<rparr>)
       (Some [text_part ''text/plain'' ''SGVsbG8=''])"

text \<open>
  A message whose PDF attachment r.pdf lies two levels below the root, inside a
  container, next to the alternative bodies.
\<close>

definition nested_message :: payload where
  "nested_message =
     container ''multipart/mixed''
       [container ''multipart/alternative'' [text_part ''text/plain'' ''SGVsbG8=''],
        container ''multipart/related''
          [Payload (Some ''application/pdf'') (Some ''r.pdf'') None
             (Some \<lparr>data = None, attachmentId = Some ''att1'', size_bytes = Some 2048\<rparr>)
             None]]"

text \<open>Three files of a drive, for the examples.\<close>

definition sample_files :: "drive_file list" where
  "sample_files =
     [\<lparr>file_id = ''f1'', file_name = ''a.txt'', file_mimeType = ''text/plain'',
       file_size = Some ''512''\<rparr>,
      \<lparr>file_id = ''f2'', file_name = ''docs'',
       file_mimeType = ''application/vnd.google-apps.folder'', file_size = None\<rparr>,
      \<lparr>file_id = ''f3'', file_name = ''r.pdf'', file_mimeType = ''application/pdf'',
       file_size = Some ''2048''\<rparr>]"

text \<open>
  Services whose listing of files does not keep to the page size: it returns the three
  files whatever page size it is asked for.
\<close>

definition greedy_services :: services where
  "greedy_services =
     (stub_services scenario [''m1'', ''m2'', ''m3''] ''Hello'' length sample_files)
       \<lparr>files_list := (\<lambda>q n order. Inr (Some sample_files))\<rparr>"

text \<open>A tokenizer for the examples: one token for each character.\<close>

definition char_tokens :: "string \<Rightarrow> nat" where
  "char_tokens t = length t"

text \<open>A text of 30001 line feeds, and a text of 30001 letters.\<close>

definition blank_text :: string where
  "blank_text = replicate 30001 (CHR 0x0A)"

definition long_text :: string where
  "long_text = replicate 30001 (CHR ''a'')"

section \<open>Evaluation lemmas\<close>

lemma nearest_double_small: "n < 2 ^ 53 \<Longrightarrow> nearest_double n = n"
  by (simp add: nearest_double_def excess_bits.simps round_half_even_def)

lemma true_div_pow_small:
  assumes "\<bar>i\<bar> < 2 ^ 53"
  shows "true_div_pow i j = Inr (i, j)"
proof -
  have "(2::nat) ^ 53 \<le> 2 ^ (1024 + 10 * j)"
    by (rule power_increasing) simp_all
  moreover have small: "nat \<bar>i\<bar> < 2 ^ 53" using assms by simp
  ultimately have "\<not> (2::nat) ^ (1024 + 10 * j) \<le> nat \<bar>i\<bar>" by linarith
  moreover have "nearest_double (nat \<bar>i\<bar>) = nat \<bar>i\<bar>"
    using small by (rule nearest_double_small)
  ultimately show ?thesis by (auto simp add: true_div_pow_def Let_def)
qed

lemmas int_literal_defs = py_int_def int_space_def is_decimal_def

lemmas render_defs = fmt_1f_def fmt_float_1f_def round_half_even_def str_nat.simps
  str_int_def digit_char_def

lemma format_second_NA: "format_file_size ''N/A'' = ''N/A''"
  by (simp add: format_file_size_def int_literal_defs)

lemma format_first_NA: "format_file_size_first ''N/A'' = ''Size unknown''"
  by (simp add: format_file_size_first_def)

lemma format_second_2048: "format_file_size ''2048'' = ''2.0 KB''"
  by (simp add: format_file_size_def int_literal_defs lt_1024_def div_1024_def
      true_div_pow_small render_defs)

lemma format_second_512: "format_file_size ''512'' = ''512.0 B''"
  by (simp add: format_file_size_def int_literal_defs lt_1024_def true_div_pow_small render_defs)

lemma format_first_512: "format_file_size_first ''512'' = ''512 B''"
  by (simp add: format_file_size_first_def isdigit_def isdigit_char_def int_literal_defs
      render_defs)

lemma format_first_2048: "format_file_size_first ''2048'' = ''2.0 KB''"
  by (simp add: format_file_size_first_def isdigit_def isdigit_char_def int_literal_defs
      true_div_pow_small render_defs)

lemma name_resolution: "exec_defs module_defs ''format_file_size'' = Some format_file_size"
  by (simp add: exec_defs_def module_defs_def)

section \<open>The duplicated size helper\<close>

text \<open>
  Claim C10. The module defines \<^verbatim>\<open>format_file_size\<close> twice. On the string N/A the
  first definition returns the text Size unknown and the second returns the string as it
  is, so the two definitions are different functions. After the module is loaded the name
  is bound to the second definition, which every call therefore reaches. The second
  definition prints a decimal point also for a size below 1024 (512 gives 512.0 B, where
  the first gives 512 B), and 2048 gives 2.0 KB.
\<close>

theorem format_file_size_definitions_differ:
  "format_file_size_first ''N/A'' = ''Size unknown''
   \<and> format_file_size ''N/A'' = ''N/A''
   \<and> format_file_size_first \<noteq> format_file_size
   \<and> exec_defs module_defs ''format_file_size'' = Some format_file_size
   \<and> format_file_size ''2048'' = ''2.0 KB''
   \<and> format_file_size ''512'' = ''512.0 B''
   \<and> format_file_size_first ''512'' = ''512 B''"
proof -
  have "format_file_size_first ''N/A'' \<noteq> format_file_size ''N/A''"
    by (simp add: format_first_NA format_second_NA)
  then have "format_file_size_first \<noteq> format_file_size" by auto
  then show ?thesis
    by (simp add: format_first_NA format_second_NA name_resolution format_second_2048
        format_second_512 format_first_512)
qed

section \<open>The attachment collector\<close>

text \<open>
  Claim C6. A part below the root with the filename r.pdf and an attachment id, but
  without the key \<^verbatim>\<open>mimeType\<close>: the collector reads the content type with a
  subscript, so it raises \<^verbatim>\<open>KeyError\<close> instead of collecting the part with an empty
  content type.
\<close>

theorem get_attachment_info_without_mimeType:
  "get_attachment_info
     (Payload (Some ''multipart/mixed'') None None None
        (Some [Payload None (Some ''r.pdf'') None
                 (Some \<lparr>data = None, attachmentId = Some ''att1'', size_bytes = Some 2048\<rparr>)
                 None]))
   = Inl (KeyError ''mimeType'')"
  by (simp add: get_attachment_info_def)







section \<open>The body extractor\<close>

lemma extract_nothing:
  "(\<forall>n \<in> set (nodes p). \<not> yields dec mime n) \<Longrightarrow>
     \<not> truthy (extract_text_from_payload dec p mime)"
  "(\<forall>n \<in> set (concat (map nodes ps)). \<not> yields dec mime n) \<Longrightarrow>
     \<not> truthy (extract_text_from_parts dec ps mime)"
proof (induction dec p mime and dec ps mime
       rule: extract_text_from_payload_extract_text_from_parts.induct)
  case (1 dec mt fn hs b ps mime_type)
  then show ?case
    by (cases ps; cases b)
       (auto simp add: yields_def decoded_def body_data_def split: option.splits sum.splits)
next
  case (2 dec mime_type)
  show ?case by simp
next
  case (3 dec part rest mime_type)
  then show ?case by (simp add: Let_def)
qed

text \<open>
  Claim C3, as the code has it. When no node of the tree yields content for the plain
  type or for the markup type, that is, no node of either type has inline data that
  decode to a non-empty text, the body is the fixed notice and not the empty string. A
  node whose data decode to the empty string yields no content, so a tree with such a
  node gets the same notice as a tree with no matching node.
\<close>

theorem extract_email_body_without_content:
  assumes "\<forall>n \<in> set (nodes p). \<not> yields dec ''text/plain'' n \<and> \<not> yields dec ''text/html'' n"
  shows "extract_email_body dec charref_sub p = ''No readable text content found.''"
proof -
  have "\<not> truthy (extract_text_from_payload dec p ''text/plain'')"
    using assms by (intro extract_nothing(1)) simp
  moreover have "\<not> truthy (extract_text_from_payload dec p ''text/html'')"
    using assms by (intro extract_nothing(1)) simp
  ultimately show ?thesis by (simp add: extract_email_body_def)
qed

lemmas example_defs = text_part_def container_def sample_decode_def yields_def decoded_def
  body_data_def

theorem extract_email_body_without_content_witness:
  "extract_email_body sample_decode sample_charref_sub
     (container ''multipart/mixed'' [text_part ''text/plain'' ''_w=='',
                                    text_part ''image/png'' ''SGVsbG8=''])
   = ''No readable text content found.''"
proof -
  have none: "\<forall>n \<in> set (nodes (container ''multipart/mixed'' [text_part ''text/plain'' ''_w=='',
                                                     text_part ''image/png'' ''SGVsbG8=''])).
      \<not> yields sample_decode ''text/plain'' n \<and> \<not> yields sample_decode ''text/html'' n"
    by (simp add: example_defs)
  show ?thesis by (rule extract_email_body_without_content [OF none])
qed

text \<open>
  The claim as the specification words it fails: a plain-text part whose data decode to
  the empty string and a message without any text part give the same body, so the two
  are not told apart.
\<close>

theorem extract_email_body_empty_counterexample:
  "decoded sample_decode (text_part ''text/plain'' ''_w=='') = Some []
   \<and> extract_email_body sample_decode sample_charref_sub (text_part ''text/plain'' ''_w=='')
     = extract_email_body sample_decode sample_charref_sub (text_part ''image/png'' ''SGVsbG8='')"
  by (simp add: example_defs extract_email_body_def)

lemma malformed_truthy:
  "malformed dec b \<Longrightarrow> truthy (case b of None \<Rightarrow> None | Some bd \<Rightarrow> data bd)"
  by (auto simp add: malformed_def split: option.splits)

lemma malformed_extract:
  "malformed dec b \<Longrightarrow> mt = Some mime \<Longrightarrow>
     extract_text_from_payload dec (Payload mt fn hs b ps) mime = None"
  by (auto simp add: malformed_def split: option.splits sum.splits)

lemma without_data_not_truthy:
  "\<not> truthy (case without_data b of None \<Rightarrow> None | Some bd \<Rightarrow> data bd)"
  by (cases b) (simp_all add: without_data_def)

lemma prune_bad_keep:
  assumes "\<not> (mt = Some mime \<and> malformed dec b)"
  shows "prune_bad dec mime (Payload mt fn hs b None) = Payload mt fn hs b None"
    and "prune_bad dec mime (Payload mt fn hs b (Some qs))
           = Payload mt fn hs b (Some (map (prune_bad dec mime) qs))"
  using assms by (cases "mt = Some mime"; cases "malformed dec b"; simp)+

lemma erase_bad_keep:
  assumes "\<not> (mt = Some mime \<and> malformed dec b)"
  shows "erase_bad dec mime (Payload mt fn hs b None) = Payload mt fn hs b None"
    and "erase_bad dec mime (Payload mt fn hs b (Some qs))
           = Payload mt fn hs b (Some (map (erase_bad dec mime) qs))"
  using assms by (cases "mt = Some mime"; cases "malformed dec b"; simp)+

lemma extract_without_data:
  "extract_text_from_payload dec (Payload mt fn hs (without_data b) None) mime = None"
  "extract_text_from_payload dec (Payload mt fn hs (without_data b) (Some [])) mime = None"
  by (simp_all add: without_data_not_truthy)

lemma extract_prune:
  "extract_text_from_payload dec p mime
     = extract_text_from_payload dec (prune_bad dec mime p) mime"
  "extract_text_from_parts dec ps mime
     = extract_text_from_parts dec (map (prune_bad dec mime) ps) mime"
proof (induction dec p mime and dec ps mime
       rule: extract_text_from_payload_extract_text_from_parts.induct)
  case (1 dec mt fn hs b ps mime_type)
  show ?case
  proof (cases "mt = Some mime_type \<and> malformed dec b")
    case True
    then have "extract_text_from_payload dec (Payload mt fn hs b ps) mime_type = None"
      by (intro malformed_extract) simp_all
    moreover have "prune_bad dec mime_type (Payload mt fn hs b ps)
        = Payload mt fn hs (without_data b) None"
      using True by (cases ps) simp_all
    ultimately show ?thesis by (simp only: extract_without_data)
  next
    case False
    show ?thesis
    proof (cases ps)
      case None
      then show ?thesis by (simp only: prune_bad_keep(1) [OF False])
    next
      case (Some qs)
      show ?thesis
      proof (cases "truthy (case b of None \<Rightarrow> None | Some bd \<Rightarrow> data bd) \<and> mt = Some mime_type")
        case True
        then show ?thesis
          unfolding Some prune_bad_keep(2) [OF False] by simp
      next
        case no_match: False
        then have "extract_text_from_parts dec qs mime_type
            = extract_text_from_parts dec (map (prune_bad dec mime_type) qs) mime_type"
          using "1.IH" [of qs] Some by auto
        with no_match show ?thesis
          unfolding Some prune_bad_keep(2) [OF False] by auto
      qed
    qed
  qed
next
  case (2 dec mime_type)
  show ?case by simp
next
  case (3 dec part rest mime_type)
  then show ?case by (simp add: Let_def)
qed

lemma leaf_data_node:
  "leaf_data (Payload mt fn hs b ps) =
     ((truthy (case b of None \<Rightarrow> None | Some bd \<Rightarrow> data bd) \<longrightarrow> ps = None \<or> ps = Some [])
      \<and> (\<forall>q \<in> set (case ps of None \<Rightarrow> [] | Some qs \<Rightarrow> qs). leaf_data q))"
  by (cases ps) (auto simp add: leaf_data_def body_data_def children_def list_all_iff)

lemma extract_erase:
  "leaf_data p \<Longrightarrow>
     extract_text_from_payload dec p mime
       = extract_text_from_payload dec (erase_bad dec mime p) mime"
  "(\<forall>q \<in> set ps. leaf_data q) \<Longrightarrow>
     extract_text_from_parts dec ps mime
       = extract_text_from_parts dec (map (erase_bad dec mime) ps) mime"
proof (induction dec p mime and dec ps mime
       rule: extract_text_from_payload_extract_text_from_parts.induct)
  case (1 dec mt fn hs b ps mime_type)
  show ?case
  proof (cases "mt = Some mime_type \<and> malformed dec b")
    case True
    then have "extract_text_from_payload dec (Payload mt fn hs b ps) mime_type = None"
      by (intro malformed_extract) simp_all
    moreover from True have "malformed dec b" by simp
    then have "truthy (case b of None \<Rightarrow> None | Some bd \<Rightarrow> data bd)"
      by (rule malformed_truthy)
    then have "ps = None \<or> ps = Some []"
      using "1.prems" by (simp add: leaf_data_node)
    then have "erase_bad dec mime_type (Payload mt fn hs b ps)
          = Payload mt fn hs (without_data b) None
        \<or> erase_bad dec mime_type (Payload mt fn hs b ps)
          = Payload mt fn hs (without_data b) (Some [])"
      using True by auto
    ultimately show ?thesis by (auto simp only: extract_without_data)
  next
    case False
    show ?thesis
    proof (cases ps)
      case None
      then show ?thesis by (simp only: erase_bad_keep(1) [OF False])
    next
      case (Some qs)
      have leaves: "\<forall>q \<in> set qs. leaf_data q"
        using "1.prems" Some by (simp add: leaf_data_node)
      show ?thesis
      proof (cases "truthy (case b of None \<Rightarrow> None | Some bd \<Rightarrow> data bd) \<and> mt = Some mime_type")
        case True
        then show ?thesis
          unfolding Some erase_bad_keep(2) [OF False] by simp
      next
        case no_match: False
        then have "extract_text_from_parts dec qs mime_type
            = extract_text_from_parts dec (map (erase_bad dec mime_type) qs) mime_type"
          using "1.IH" [of qs] Some leaves by auto
        with no_match show ?thesis
          unfolding Some erase_bad_keep(2) [OF False] by auto
      qed
    qed
  qed
next
  case (2 dec mime_type)
  show ?case by simp
next
  case (3 dec part rest mime_type)
  then show ?case by (simp add: Let_def)
qed

lemma first_content_append:
  "first_content dec mime (xs @ ys)
     = (if first_content dec mime xs = None then first_content dec mime ys
        else first_content dec mime xs)"
  by (induction xs) (auto simp add: yields_def)

lemma found_extract_matching:
  assumes "mt = Some mime" "truthy (case b of None \<Rightarrow> None | Some bd \<Rightarrow> data bd)"
  shows "found (extract_text_from_payload dec (Payload mt fn hs b ps) mime)
           = first_content dec mime [Payload mt fn hs b ps]"
  using assms
  by (cases b) (auto simp add: found_def yields_def decoded_def body_data_def
      split: option.splits sum.splits)

lemma found_extract:
  "leaf_data p \<Longrightarrow>
     found (extract_text_from_payload dec p mime) = first_content dec mime (nodes p)"
  "(\<forall>q \<in> set ps. leaf_data q) \<Longrightarrow>
     found (extract_text_from_parts dec ps mime)
       = first_content dec mime (concat (map nodes ps))"
proof (induction dec p mime and dec ps mime
       rule: extract_text_from_payload_extract_text_from_parts.induct)
  case (1 dec mt fn hs b ps mime_type)
  show ?case
  proof (cases "mt = Some mime_type \<and> truthy (case b of None \<Rightarrow> None | Some bd \<Rightarrow> data bd)")
    case True
    then have "ps = None \<or> ps = Some []"
      using "1.prems" by (simp add: leaf_data_node)
    then have "nodes (Payload mt fn hs b ps) = [Payload mt fn hs b ps]"
      by auto
    with True show ?thesis
      by (simp only: found_extract_matching)
  next
    case False
    then have no: "\<not> yields dec mime_type (Payload mt fn hs b ps)"
      by (auto simp add: yields_def body_data_def)
    show ?thesis
    proof (cases ps)
      case None
      with False no show ?thesis by (auto simp add: found_def)
    next
      case (Some qs)
      have leaves: "\<forall>q \<in> set qs. leaf_data q"
        using "1.prems" Some by (simp add: leaf_data_node)
      have "found (extract_text_from_parts dec qs mime_type)
              = first_content dec mime_type (concat (map nodes qs))"
        using "1.IH" [of qs] False Some leaves by auto
      with False no Some show ?thesis by auto
    qed
  qed
next
  case (2 dec mime_type)
  show ?case by (simp add: found_def)
next
  case (3 dec part rest mime_type)
  then show ?case
    by (auto simp add: Let_def first_content_append found_def split: if_splits)
qed

lemma first_content_well_formed:
  "first_content dec mime (filter (\<lambda>n. \<not> malformed dec (body n)) ns)
     = first_content dec mime ns"
proof (induction ns)
  case Nil
  show ?case by simp
next
  case (Cons n ns)
  have "\<not> yields dec mime n" if "malformed dec (body n)"
    using that
    by (auto simp add: malformed_def yields_def decoded_def body_data_def
        split: option.splits sum.splits)
  with Cons show ?case by auto
qed

lemma extract_text_exc_returns:
  "extract_text_exc dec p mime = Inr (extract_text_from_payload dec p mime)"
  "extract_parts_exc dec ps mime = Inr (extract_text_from_parts dec ps mime)"
proof (induction dec p mime and dec ps mime
       rule: extract_text_from_payload_extract_text_from_parts.induct)
  case (1 dec mt fn hs b ps mime_type)
  then show ?case
    by (cases ps; cases b)
       (auto simp add: try_except_def split: option.splits sum.splits)
next
  case (2 dec mime_type)
  show ?case by simp
next
  case (3 dec part rest mime_type)
  then show ?case by (simp add: Let_def)
qed

text \<open>
  Claim C4, as the code has it. The decode failure is caught where it happens: on every
  tree and for every decoder the walker returns a value and raises nothing. On a tree of
  the data model, where only leaves carry inline data, the result is the text of the
  first node that yields content, in depth-first pre-order, among the nodes whose data
  are not malformed: a node with malformed data counts as absent and the traversal goes
  on with the nodes after it. It is also the result on the tree in which the malformed
  data are absent.
\<close>

theorem decode_failure_is_skipped:
  "extract_text_exc dec p mime = Inr (extract_text_from_payload dec p mime)
   \<and> (leaf_data p \<longrightarrow>
        found (extract_text_from_payload dec p mime)
          = first_content dec mime (filter (\<lambda>n. \<not> malformed dec (body n)) (nodes p))
        \<and> extract_text_from_payload dec p mime
          = extract_text_from_payload dec (erase_bad dec mime p) mime)"
  by (simp add: extract_text_exc_returns(1) found_extract(1) first_content_well_formed
      extract_erase(1) [symmetric])

theorem decode_failure_is_skipped_witness:
  "first_content sample_decode ''text/plain''
     (filter (\<lambda>n. \<not> malformed sample_decode (body n))
        (nodes (container ''multipart/mixed''
                  [text_part ''text/plain'' ''A'', text_part ''text/plain'' ''SGVsbG8=''])))
     = Some ''Hello''
   \<and> extract_text_exc sample_decode
         (container ''multipart/mixed''
            [text_part ''text/plain'' ''A'', text_part ''text/plain'' ''SGVsbG8=''])
         ''text/plain''
       = Inr (Some ''Hello'')"
proof -
  let ?t = "container ''multipart/mixed''
              [text_part ''text/plain'' ''A'', text_part ''text/plain'' ''SGVsbG8='']"
  have leaf: "leaf_data ?t"
    by (simp add: leaf_data_def text_part_def container_def body_data_def children_def)
  have first: "first_content sample_decode ''text/plain''
      (filter (\<lambda>n. \<not> malformed sample_decode (body n)) (nodes ?t)) = Some ''Hello''"
    by (simp add: example_defs malformed_def)
  have "found (extract_text_from_payload sample_decode ?t ''text/plain'')
      = first_content sample_decode ''text/plain''
          (filter (\<lambda>n. \<not> malformed sample_decode (body n)) (nodes ?t))"
    using decode_failure_is_skipped [of sample_decode ?t "''text/plain''"] leaf
    by blast
  then have "found (extract_text_from_payload sample_decode ?t ''text/plain'') = Some ''Hello''"
    by (simp only: first)
  then have "extract_text_from_payload sample_decode ?t ''text/plain'' = Some ''Hello''"
    by (simp add: found_def split: if_splits)
  moreover have "extract_text_exc sample_decode ?t ''text/plain''
      = Inr (extract_text_from_payload sample_decode ?t ''text/plain'')"
    using decode_failure_is_skipped [of sample_decode ?t "''text/plain''"] by blast
  ultimately have "extract_text_exc sample_decode ?t ''text/plain'' = Inr (Some ''Hello'')"
    by simp
  then show ?thesis by (intro conjI first)
qed

text \<open>
  The claim as the specification words it, for every tree, fails on a node that is not a
  leaf: when the data of a node do not decode, the walker returns without visiting the
  parts of that node, so the text of its child is not found, whereas with the data absent
  it is.
\<close>

theorem decode_failure_hides_parts_counterexample:
  "extract_text_from_payload sample_decode bad_parent ''text/plain'' = None
   \<and> extract_text_from_payload sample_decode
         (erase_bad sample_decode ''text/plain'' bad_parent) ''text/plain''
       = Some ''Hello''"
  by (simp add: bad_parent_def text_part_def sample_decode_def malformed_def without_data_def)

text \<open>
  Claim C5, as the code has it. On a tree of the data model, where only leaves carry
  inline data, that has a plain-text node whose data decode to a non-empty text, the body
  is the decoded text of the first such node in depth-first pre-order, whatever markup
  nodes the tree has and wherever they stand; the text is returned as decoded, without
  tag stripping.
\<close>

theorem extract_email_body_prefers_plain:
  assumes "leaf_data p"
    and "first_content dec ''text/plain'' (nodes p) = Some t"
  shows "extract_email_body dec charref_sub p = t"
proof -
  have "found (extract_text_from_payload dec p ''text/plain'') = Some t"
    using assms by (simp add: found_extract(1))
  then have "truthy (extract_text_from_payload dec p ''text/plain'')"
    and "extract_text_from_payload dec p ''text/plain'' = Some t"
    by (auto simp add: found_def split: if_splits)
  then show ?thesis by (simp add: extract_email_body_def)
qed


lemmas strip_defs = strip_html_tags_def unescape_def strip_def isspace_def

theorem extract_email_body_prefers_plain_witness:
  "first_content sample_decode ''text/plain''
     (nodes (container ''multipart/alternative''
              [text_part ''text/html'' ''PGI-SGk8L2I-'', text_part ''text/plain'' ''SGVsbG8='']))
   = Some ''Hello''
   \<and> extract_email_body sample_decode sample_charref_sub
         (container ''multipart/alternative''
            [text_part ''text/html'' ''PGI-SGk8L2I-'', text_part ''text/plain'' ''SGVsbG8=''])
       = ''Hello''"
proof -
  have leaf: "leaf_data (container ''multipart/alternative''
               [text_part ''text/html'' ''PGI-SGk8L2I-'', text_part ''text/plain'' ''SGVsbG8=''])"
    by (simp add: leaf_data_def text_part_def container_def body_data_def children_def)
  have first: "first_content sample_decode ''text/plain''
         (nodes (container ''multipart/alternative''
                  [text_part ''text/html'' ''PGI-SGk8L2I-'', text_part ''text/plain'' ''SGVsbG8='']))
       = Some ''Hello''"
    by (simp add: example_defs)
  show ?thesis
    by (intro conjI first extract_email_body_prefers_plain [OF leaf first])
qed

text \<open>
  The claim as the specification words it fails: when the data of the plain-text part
  decode to the empty string, the body is the stripped text of the markup part.
\<close>

theorem extract_email_body_empty_plain_counterexample:
  "decoded sample_decode (text_part ''text/plain'' ''_w=='') = Some []
   \<and> extract_email_body sample_decode sample_charref_sub
         (container ''multipart/alternative''
            [text_part ''text/plain'' ''_w=='', text_part ''text/html'' ''PGI-SGk8L2I-''])
       = ''Hi''"
  by (simp add: example_defs extract_email_body_def strip_defs)

section \<open>Tag stripping\<close>

lemma strip_html_tags_example:
  "strip_html_tags sample_charref_sub ''<b>Hi</b>&nbsp;there'' = ''Hi there''"
  by (simp add: strip_defs sample_charref_sub_def)

text \<open>
  Claim C8. A tag that contains a line feed is not removed, because the dot of the
  pattern does not match a line feed: of an anchor whose opening tag is broken over two
  lines, the opening tag stays in the result, with the line feed turned into a space.
  This holds whatever the library does with character references, since the text has
  none.
\<close>

theorem strip_html_tags_keeps_tag_with_line_feed:
  "strip_html_tags charref_sub (''<a'' @ [CHR 0x0A] @ ''href=x>link</a>'') = ''<a href=x>link''"
  by (simp add: strip_defs)

section \<open>Reading the content of an attachment\<close>

lemmas lower_defs = lower_def lower_char_def upper_letters_def lower_letters_def

text \<open>What the automatic selection does: it takes the first of the given parts whose
  lower-cased filename has a supported ending and whose body has an attachment id.\<close>

lemma auto_select_first:
  "auto_select ps
     = (case filter (\<lambda>part. supported_name (lower (str_of (filename part)))
                              \<and> truthy (body_attachmentId part)) ps of
          [] \<Rightarrow> None
        | part # rest \<Rightarrow> Some part)"
proof (induction ps)
  case Nil
  show ?case by simp
next
  case (Cons part ps)
  have "(case filename part of None \<Rightarrow> [] | Some f \<Rightarrow> f) = str_of (filename part)"
    by (cases "filename part") simp_all
  with Cons show ?case by (simp add: Let_def)
qed

text \<open>
  Claim C2. The automatic selection looks at the top-level parts of the message only. On
  a message whose PDF attachment is nested in a container, the tool reports that no
  supported attachment was found, although the attachment collector, which walks the
  whole tree, lists the attachment.
\<close>

theorem auto_select_misses_nested_attachment:
  "gmail_read_attchment_content (stub_services nested_message [] ''Hello'' length []) ''m1'' None
     = ''No supported attachment (.pdf, .docx, .txt) found in this message.''
   \<and> get_attachment_info nested_message
     = Inr [\<lparr>att_filename = ''r.pdf'', att_mime_type = ''application/pdf'',
             att_size = ''2.0 KB'', att_id = ''att1''\<rparr>]"
  by (simp add: gmail_read_attchment_content_def read_attachment_try_def stub_services_def
      message_parts_def children_def nested_message_def container_def text_part_def
      select_part_def supported_name_def endswith_def lower_defs body_attachmentId_def
      get_attachment_info_def body_size_def str_int_def str_nat.simps digit_char_def
      format_second_2048)

lemma str_nat_MAX_TOKENS: "str_nat MAX_TOKENS = ''30000''"
  by (simp add: MAX_TOKENS_def str_nat.simps digit_char_def)

text \<open>
  Claim C7, as the code has it. When the tool has matched a part, downloaded and decoded
  the file, and extracted a text that is not blank and has more tokens than the limit of
  30000, it returns the notice that names the file, the number of tokens and the limit.
  The notice depends on the text through the number of its tokens only: nothing of the
  text is returned.
\<close>

theorem token_limit_reported:
  assumes "get_encoding sv = Inr count_tokens"
    and "messages_get sv message_id = Inr msg"
    and "select_part (message_parts msg) message_id attachment_id = Inr (matched_part, aid)"
    and "attachments_get sv message_id aid = Inr encoded"
    and "urlsafe_b64decode sv encoded = Inr file_bytes"
    and "extract_file_text sv (part_name matched_part) file_bytes = Inr (Some extracted_text)"
    and "strip extracted_text \<noteq> []"
    and "MAX_TOKENS < count_tokens extracted_text"
  shows "gmail_read_attchment_content sv message_id attachment_id
           = ''File '' @ [CHR 0x27] @ part_name matched_part @ [CHR 0x27] @ '' is too large (''
               @ str_nat (count_tokens extracted_text)
               @ '' tokens). Maximum allowed is 30000 tokens. The file will not be loaded.''"
  using assms
  by (simp add: gmail_read_attchment_content_def read_attachment_try_def read_matched_part_def
      too_large_message_def str_nat_MAX_TOKENS)

lemma strip_replicate:
  "strip (replicate n c) = (if isspace c then [] else replicate n c)"
  by (simp add: strip_def dropWhile_replicate)

lemmas stub_read_defs = stub_services_def message_parts_def children_def scenario_def
  select_part_def supported_name_def endswith_def lower_defs body_attachmentId_def
  part_name_def extract_file_text_def

theorem token_limit_reported_witness:
  "strip long_text \<noteq> []
   \<and> MAX_TOKENS < char_tokens long_text
   \<and> gmail_read_attchment_content (stub_services scenario [] long_text char_tokens [])
         ''m1'' None
       = ''File '' @ [CHR 0x27] @ ''r.pdf'' @ [CHR 0x27]
           @ '' is too large (30001 tokens). Maximum allowed is 30000 tokens. The file will not be loaded.''"
proof -
  let ?sv = "stub_services scenario [] long_text char_tokens []"
  let ?part = "Payload (Some ''application/pdf'') (Some ''r.pdf'') None
                (Some \<lparr>data = None, attachmentId = Some ''att1'', size_bytes = Some 2048\<rparr>)
                None"
  have enc: "get_encoding ?sv = Inr char_tokens"
    by (simp add: stub_services_def)
  have msg: "messages_get ?sv ''m1'' = Inr \<lparr>msg_payload = Some scenario, snippet = Some []\<rparr>"
    by (simp add: stub_services_def)
  have sel: "select_part (message_parts \<lparr>msg_payload = Some scenario, snippet = Some []\<rparr>)
               ''m1'' None = Inr (?part, ''att1'')"
    by (simp add: stub_read_defs)
  have att: "attachments_get ?sv ''m1'' ''att1'' = Inr []"
    by (simp add: stub_services_def)
  have b64: "urlsafe_b64decode ?sv [] = Inr []"
    by (simp add: stub_services_def)
  have name: "part_name ?part = ''r.pdf''"
    by (simp add: part_name_def lower_defs)
  have ext: "extract_file_text ?sv (part_name ?part) [] = Inr (Some long_text)"
    by (simp add: name extract_file_text_def endswith_def stub_services_def)
  have nonblank: "strip long_text \<noteq> []"
    by (simp add: long_text_def strip_replicate isspace_def)
  have count: "char_tokens long_text = 30001"
    by (simp add: char_tokens_def long_text_def)
  have over: "MAX_TOKENS < char_tokens long_text"
    by (simp add: count MAX_TOKENS_def)
  have digits: "str_nat 30001 = ''30001''"
    by (simp add: str_nat.simps digit_char_def)
  show ?thesis
    using token_limit_reported [OF enc msg sel att b64 ext nonblank over] nonblank over
    by (simp add: name count digits)
qed

text \<open>
  The claim as the specification words it fails on a blank text: the tool tests for a
  blank text before it counts tokens, and reports that no text was found, without the
  limit and the count.
\<close>

theorem blank_text_over_limit_counterexample:
  "MAX_TOKENS < char_tokens blank_text
   \<and> gmail_read_attchment_content (stub_services scenario [] blank_text char_tokens [])
         ''m1'' None
       = ''Attachment was processed but no extractable text was found.''"
proof -
  have blank: "strip blank_text = []"
    by (simp add: blank_text_def strip_replicate isspace_def)
  have "MAX_TOKENS < char_tokens blank_text"
    by (simp add: char_tokens_def blank_text_def MAX_TOKENS_def)
  moreover have "gmail_read_attchment_content
      (stub_services scenario [] blank_text char_tokens []) ''m1'' None
       = ''Attachment was processed but no extractable text was found.''"
    by (simp add: gmail_read_attchment_content_def read_attachment_try_def
        read_matched_part_def stub_read_defs blank)
  ultimately show ?thesis by simp
qed

section \<open>The caps on enumerations\<close>

lemma collect_messages_take:
  "length valid \<le> nat max_results \<Longrightarrow>
     collect_messages sv flt max_results refs valid
       = valid @ take (nat max_results - length valid) (kept_messages sv flt refs)"
proof (induction refs arbitrary: valid)
  case Nil
  show ?case by (simp add: kept_messages_def List.map_filter_simps)
next
  case (Cons ref_id rest)
  show ?case
  proof (cases "max_results \<le> int (length valid)")
    case True
    with Cons.prems have "nat max_results - length valid = 0" by simp
    with True show ?thesis by simp
  next
    case False
    then have room: "length (valid @ [md]) \<le> nat max_results" for md by simp
    from False obtain k where k: "nat max_results - length valid = Suc k"
      by (cases "nat max_results - length valid") simp_all
    then have k': "nat max_results - length (valid @ [md]) = k" for md by simp
    show ?thesis
    proof (cases "kept_message sv flt ref_id")
      case None
      then have "collect_messages sv flt max_results (ref_id # rest) valid
          = collect_messages sv flt max_results rest valid"
        using False by (auto simp add: kept_message_def split: sum.splits option.splits)
      with None Cons show ?thesis
        by (simp add: kept_messages_def List.map_filter_simps)
    next
      case (Some md)
      then have "collect_messages sv flt max_results (ref_id # rest) valid
          = collect_messages sv flt max_results rest (valid @ [md])"
        using False by (auto simp add: kept_message_def split: sum.splits option.splits)
      with Some Cons.IH [OF room [of md]] k k' [of md] show ?thesis
        by (simp add: kept_messages_def List.map_filter_simps)
    qed
  qed
qed

text \<open>
  Claim C9, as the code has it. The search for messages with attachments asks the service
  for five times \<^verbatim>\<open>max_results\<close> candidates and returns the first
  \<^verbatim>\<open>max_results\<close> of those that it keeps: at most \<^verbatim>\<open>max_results\<close> messages when
  the cap is not negative, and none when it is negative, whatever the service lists. The
  listing of files asks the service for a page of \<^verbatim>\<open>min(max_results, 1000)\<close> files and
  enumerates the files of the response, all of them: it does not cut the list.
\<close>

theorem enumeration_is_capped:
  "result_messages
     (gmail_find_messages_with_attachments sv max_results query sender
        subject_contains date_after date_before attachment_type mime_type)
     = (case choose_filter attachment_type mime_type of
          Inl unsupported \<Rightarrow> []
        | Inr filter_mime_type \<Rightarrow>
            (case messages_list sv (max_results * 5)
                    (build_search_query query sender subject_contains date_after date_before) of
               Inl e \<Rightarrow> []
             | Inr listed \<Rightarrow>
                 take (nat max_results)
                   (kept_messages sv filter_mime_type
                      (case listed of None \<Rightarrow> [] | Some refs \<Rightarrow> refs))))
   \<and> length (result_messages
            (gmail_find_messages_with_attachments sv max_results query sender
               subject_contains date_after date_before attachment_type mime_type))
       \<le> nat max_results
   \<and> listed_items (drive_list_all_files sv max_results file_type order_by)
       = (case files_query file_type of
            Inl unsupported \<Rightarrow> []
          | Inr q \<Rightarrow>
              (case files_list sv q (min max_results 1000) order_by of
                 Inl e \<Rightarrow> []
               | Inr listed \<Rightarrow> (case listed of None \<Rightarrow> [] | Some files \<Rightarrow> files)))"
proof -
  have loop: "collect_messages sv flt max_results refs []
      = take (nat max_results) (kept_messages sv flt refs)" for flt refs
    using collect_messages_take [of "[]" max_results sv flt refs] by simp
  have found_messages: "result_messages
     (gmail_find_messages_with_attachments sv max_results query sender
        subject_contains date_after date_before attachment_type mime_type)
     = (case choose_filter attachment_type mime_type of
          Inl unsupported \<Rightarrow> []
        | Inr filter_mime_type \<Rightarrow>
            (case messages_list sv (max_results * 5)
                    (build_search_query query sender subject_contains date_after date_before) of
               Inl e \<Rightarrow> []
             | Inr listed \<Rightarrow>
                 take (nat max_results)
                   (kept_messages sv filter_mime_type
                      (case listed of None \<Rightarrow> [] | Some refs \<Rightarrow> refs))))"
    by (auto simp add: gmail_find_messages_with_attachments_def Let_def loop
        kept_messages_def List.map_filter_simps
        split: sum.splits py_error.splits option.splits)
  have bound: "length (result_messages
            (gmail_find_messages_with_attachments sv max_results query sender
               subject_contains date_after date_before attachment_type mime_type))
       \<le> nat max_results"
    unfolding found_messages by (auto split: sum.splits)
  have files: "listed_items (drive_list_all_files sv max_results file_type order_by)
       = (case files_query file_type of
            Inl unsupported \<Rightarrow> []
          | Inr q \<Rightarrow>
              (case files_list sv q (min max_results 1000) order_by of
                 Inl e \<Rightarrow> []
               | Inr listed \<Rightarrow> (case listed of None \<Rightarrow> [] | Some files \<Rightarrow> files)))"
    by (auto simp add: drive_list_all_files_def files_query_def Let_def
        split: sum.splits option.splits)
  show ?thesis by (intro conjI found_messages bound files)
qed

theorem enumeration_is_capped_witness:
  "length (result_messages
         (gmail_find_messages_with_attachments
            (stub_services scenario [''m1'', ''m2'', ''m3''] ''Hello'' char_tokens sample_files)
            2 None None None None None None None)) \<le> 2
   \<and> map file_id (listed_items
         (drive_list_all_files
            (stub_services scenario [''m1'', ''m2'', ''m3''] ''Hello'' char_tokens sample_files)
            2 None ''name'')) = [''f1'', ''f2'']"
proof -
  let ?sv = "stub_services scenario [''m1'', ''m2'', ''m3''] ''Hello'' char_tokens sample_files"
  note capped =
    enumeration_is_capped [of ?sv 2 None None None None None None None None "''name''"]
  have "length (result_messages
         (gmail_find_messages_with_attachments ?sv 2 None None None None None None None))
        \<le> nat 2"
    using capped by blast
  moreover have "listed_items (drive_list_all_files ?sv 2 None ''name'')
      = (case files_query None of
            Inl unsupported \<Rightarrow> []
          | Inr q \<Rightarrow>
              (case files_list ?sv q (min 2 1000) ''name'' of
                 Inl e \<Rightarrow> []
               | Inr listed \<Rightarrow> (case listed of None \<Rightarrow> [] | Some files \<Rightarrow> files)))"
    using capped by blast
  then have "map file_id (listed_items (drive_list_all_files ?sv 2 None ''name''))
      = [''f1'', ''f2'']"
    by (simp add: files_query_def stub_services_def sample_files_def)
  ultimately show ?thesis by simp
qed

text \<open>
  The claim as the specification words it fails. Asked for at most one file, the listing
  of files enumerates the three files that the service returns. With the cap -1 the
  search returns no message, which is more than the cap.
\<close>

theorem listing_exceeds_cap_counterexample:
  "length (listed_items (drive_list_all_files greedy_services 1 None ''name'')) = 3
   \<and> result_messages
         (gmail_find_messages_with_attachments greedy_services (- 1)
            None None None None None None None) = []"
  by (simp add: drive_list_all_files_def greedy_services_def stub_services_def
      sample_files_def gmail_find_messages_with_attachments_def choose_filter_def
      build_search_query_def search_term_def Let_def)

text \<open>
  In the example the service lists three messages with an attachment and the drive holds
  three files: with the cap 2, two messages and the first two files are returned.
\<close>

lemma capped_example:
  "length (result_messages
         (gmail_find_messages_with_attachments
            (stub_services scenario [''m1'', ''m2'', ''m3''] ''Hello'' char_tokens sample_files)
            2 None None None None None None None)) = 2
   \<and> map file_id (listed_items
         (drive_list_all_files
            (stub_services scenario [''m1'', ''m2'', ''m3''] ''Hello'' char_tokens sample_files)
            2 None ''name'')) = [''f1'', ''f2'']"
  by (simp add: gmail_find_messages_with_attachments_def choose_filter_def
      build_search_query_def search_term_def stub_services_def process_message_def
      scenario_def strip_def isspace_def drive_list_all_files_def sample_files_def Let_def)

end
